theory Spec2Isabelle
  imports Complex_Main
begin

section \<open>Python values that the handlers of \<^verbatim>\<open>Server/app.py\<close> touch\<close>

text \<open>
  The server decodes request bodies with \<^verbatim>\<open>request.get_json()\<close> and builds every answer
  with \<^verbatim>\<open>jsonify\<close>, so the values it handles are the Python images of JSON values:
  \<^verbatim>\<open>None\<close>, \<^verbatim>\<open>bool\<close>, \<^verbatim>\<open>int\<close> (unbounded), \<^verbatim>\<open>float\<close>, \<^verbatim>\<open>str\<close>, \<^verbatim>\<open>list\<close> and \<^verbatim>\<open>dict\<close>.

  A \<^verbatim>\<open>float\<close> is an IEEE binary64 number. Its finite values are rationals, kept exactly
  (\<open>Fin q\<close>); the negative zero, the infinities and the not-a-number are separate
  constructors. A \<^verbatim>\<open>str\<close> is a list of characters with code points below 256. A
  \<^verbatim>\<open>dict\<close> decoded from JSON is an association list in insertion order.
\<close>

datatype pyfloat = Fin rat | NegZero | PInf | NInf | NaN

datatype json =
    JNull
  | JBool bool
  | JInt int
  | JFloat pyfloat
  | JStr string
  | JArr "json list"
  | JObj "(string \<times> json) list"

text \<open>
  Exceptions. \<open>perr\<close> are the two that the position parser can raise inside its
  \<^verbatim>\<open>try\<close> block, with the text \<^verbatim>\<open>str(e)\<close> gives them; \<open>exn\<close> are those raised by
  operators on a value of the wrong type, which in this program always happen outside a
  \<^verbatim>\<open>try\<close> block.
\<close>

datatype perr = IndexError | ValueError string

datatype exn = TypeError | KeyError

subsection \<open>Truth value, membership, subscript, comparison\<close>

text \<open>\<^verbatim>\<open>bool(v)\<close>, as used by \<^verbatim>\<open>not data\<close>.\<close>

fun truthy :: "json \<Rightarrow> bool" where
  "truthy JNull = False"
| "truthy (JBool b) = b"
| "truthy (JInt n) = (n \<noteq> 0)"
| "truthy (JFloat f) = (f \<noteq> Fin 0 \<and> f \<noteq> NegZero)"
| "truthy (JStr s) = (s \<noteq> [])"
| "truthy (JArr xs) = (xs \<noteq> [])"
| "truthy (JObj kvs) = (kvs \<noteq> [])"

fun starts_with :: "string \<Rightarrow> string \<Rightarrow> bool" where
  "starts_with s [] = True"
| "starts_with [] (p # ps) = False"
| "starts_with (c # cs) (p # ps) = (c = p \<and> starts_with cs ps)"

text \<open>\<^verbatim>\<open>p in s\<close> for two strings: \<open>p\<close> occurs in \<open>s\<close> as a contiguous piece.\<close>

fun substring_in :: "string \<Rightarrow> string \<Rightarrow> bool" where
  "substring_in p [] = (p = [])"
| "substring_in p (c # cs) = (starts_with (c # cs) p \<or> substring_in p cs)"

text \<open>
  \<^verbatim>\<open>k in data\<close> for a string \<open>k\<close>: a key of a dict, an element of a list, a piece of a
  string; any other value is not iterable and the operator raises \<^verbatim>\<open>TypeError\<close>.
\<close>

fun py_in :: "string \<Rightarrow> json \<Rightarrow> exn + bool" where
  "py_in k (JObj kvs) = Inr (k \<in> set (map fst kvs))"
| "py_in k (JArr xs) = Inr (JStr k \<in> set xs)"
| "py_in k (JStr s) = Inr (substring_in k s)"
| "py_in k JNull = Inl TypeError"
| "py_in k (JBool b) = Inl TypeError"
| "py_in k (JInt n) = Inl TypeError"
| "py_in k (JFloat f) = Inl TypeError"

text \<open>
  \<^verbatim>\<open>all(k in data for k in ks)\<close>: the generator is consumed from the left and stops at
  the first key that is absent; an exception of \<^verbatim>\<open>in\<close> leaves it at once.
\<close>

fun all_in :: "string list \<Rightarrow> json \<Rightarrow> exn + bool" where
  "all_in [] d = Inr True"
| "all_in (k # ks) d =
     (case py_in k d of
        Inl e \<Rightarrow> Inl e
      | Inr present \<Rightarrow> if present then all_in ks d else Inr False)"

text \<open>\<^verbatim>\<open>data[k]\<close> for a string \<open>k\<close>: only a dict can be subscripted by a string.\<close>

fun subscript :: "json \<Rightarrow> string \<Rightarrow> exn + json" where
  "subscript (JObj kvs) k = (case map_of kvs k of None \<Rightarrow> Inl KeyError | Some v \<Rightarrow> Inr v)"
| "subscript JNull k = Inl TypeError"
| "subscript (JBool b) k = Inl TypeError"
| "subscript (JInt n) k = Inl TypeError"
| "subscript (JFloat f) k = Inl TypeError"
| "subscript (JStr s) k = Inl TypeError"
| "subscript (JArr xs) k = Inl TypeError"

text \<open>
  \<^verbatim>\<open>n <= v\<close> and \<^verbatim>\<open>v <= n\<close> for an integer literal \<open>n\<close>. Python compares an \<^verbatim>\<open>int\<close> with
  a \<^verbatim>\<open>float\<close> exactly, a \<^verbatim>\<open>bool\<close> counts as 0 or 1, every comparison with a
  not-a-number is false, and the other types do not order against \<^verbatim>\<open>int\<close>.
\<close>

fun int_le :: "int \<Rightarrow> json \<Rightarrow> exn + bool" where
  "int_le n (JInt m) = Inr (n \<le> m)"
| "int_le n (JBool b) = Inr (n \<le> (if b then 1 else 0))"
| "int_le n (JFloat (Fin q)) = Inr (of_int n \<le> q)"
| "int_le n (JFloat NegZero) = Inr (n \<le> 0)"
| "int_le n (JFloat PInf) = Inr True"
| "int_le n (JFloat NInf) = Inr False"
| "int_le n (JFloat NaN) = Inr False"
| "int_le n JNull = Inl TypeError"
| "int_le n (JStr s) = Inl TypeError"
| "int_le n (JArr xs) = Inl TypeError"
| "int_le n (JObj kvs) = Inl TypeError"

fun le_int :: "json \<Rightarrow> int \<Rightarrow> exn + bool" where
  "le_int (JInt m) n = Inr (m \<le> n)"
| "le_int (JBool b) n = Inr ((if b then 1 else 0) \<le> n)"
| "le_int (JFloat (Fin q)) n = Inr (q \<le> of_int n)"
| "le_int (JFloat NegZero) n = Inr (0 \<le> n)"
| "le_int (JFloat PInf) n = Inr False"
| "le_int (JFloat NInf) n = Inr True"
| "le_int (JFloat NaN) n = Inr False"
| "le_int JNull n = Inl TypeError"
| "le_int (JStr s) n = Inl TypeError"
| "le_int (JArr xs) n = Inl TypeError"
| "le_int (JObj kvs) n = Inl TypeError"

text \<open>
  The chained comparison \<^verbatim>\<open>lo <= v <= hi\<close> is \<^verbatim>\<open>lo <= v and v <= hi\<close>: the second
  comparison is evaluated only when the first is true.
\<close>

definition between :: "int \<Rightarrow> json \<Rightarrow> int \<Rightarrow> exn + bool" where
  "between lo v hi =
     (case int_le lo v of
        Inl e \<Rightarrow> Inl e
      | Inr ok \<Rightarrow> if ok then le_int v hi else Inr False)"

subsection \<open>String methods\<close>

text \<open>\<^verbatim>\<open>s.replace(c, '')\<close> for a single character \<open>c\<close>.\<close>

definition remove_char :: "char \<Rightarrow> string \<Rightarrow> string" where
  "remove_char c s = filter (\<lambda>d. d \<noteq> c) s"

text \<open>
  \<^verbatim>\<open>s.split(sep)\<close> for a single character \<open>sep\<close>: the pieces between the occurrences
  of \<open>sep\<close>, empty pieces kept, so the result is never empty.
\<close>

fun split_on :: "char \<Rightarrow> string \<Rightarrow> string list" where
  "split_on sep [] = [[]]"
| "split_on sep (c # cs) =
     (if c = sep then [] # split_on sep cs
      else (case split_on sep cs of
              [] \<Rightarrow> [[c]]
            | p # ps \<Rightarrow> (c # p) # ps))"

text \<open>\<^verbatim>\<open>xs[i]\<close> for a literal index \<open>i \<ge> 0\<close>: out of range raises \<^verbatim>\<open>IndexError\<close>.\<close>

definition item :: "'a list \<Rightarrow> nat \<Rightarrow> perr + 'a" where
  "item xs i = (if i < length xs then Inr (xs ! i) else Inl IndexError)"

subsection \<open>\<^verbatim>\<open>repr\<close> of a string\<close>

text \<open>
  The text of the \<^verbatim>\<open>ValueError\<close> of \<^verbatim>\<open>float\<close> shows the offending string through
  \<^verbatim>\<open>repr\<close>: single quotes unless the string holds a single quote and no double quote;
  the quote and the backslash escaped; tab, newline and carriage return as \<^verbatim>\<open>\t\<close>,
  \<^verbatim>\<open>\n\<close>, \<^verbatim>\<open>\r\<close>; the other characters that are not printable (below 256 these are the
  control characters, the no-break space and the soft hyphen) as \<^verbatim>\<open>\xhh\<close>.
\<close>

definition hex2 :: "nat \<Rightarrow> string" where
  "hex2 n = [''0123456789abcdef'' ! (n div 16 mod 16), ''0123456789abcdef'' ! (n mod 16)]"

definition printable :: "char \<Rightarrow> bool" where
  "printable c =
     (let n = (of_char c :: nat)
      in (32 \<le> n \<and> n < 127) \<or> (161 \<le> n \<and> n \<noteq> 173))"

definition repr_char :: "char \<Rightarrow> char \<Rightarrow> string" where
  "repr_char quote c =
     (if c = quote \<or> c = CHR 0x5C then [CHR 0x5C, c]
      else if c = CHR 0x09 then [CHR 0x5C, CHR ''t'']
      else if c = CHR 0x0A then [CHR 0x5C, CHR ''n'']
      else if c = CHR 0x0D then [CHR 0x5C, CHR ''r'']
      else if printable c then [c]
      else [CHR 0x5C, CHR ''x''] @ hex2 (of_char c))"

definition py_repr :: "string \<Rightarrow> string" where
  "py_repr s =
     (let quote = (if CHR 0x27 \<in> set s \<and> CHR 0x22 \<notin> set s then CHR 0x22 else CHR 0x27)
      in [quote] @ concat (map (repr_char quote) s) @ [quote])"

subsection \<open>\<^verbatim>\<open>float(s)\<close>\<close>

text \<open>
  The nearest binary64 number to a positive fraction \<open>n / d\<close>, ties to the even
  significand: \<open>e\<close> is the binary exponent of the fraction, not below that of the
  smallest normal number, the spacing of the numbers there is \<open>2 ^ (e - 52)\<close>, and a
  result of \<open>2 ^ 1024\<close> or more has overflowed (\<open>None\<close>).
\<close>

function bit_length :: "int \<Rightarrow> int" where
  "bit_length n = (if n \<le> 0 then 0 else bit_length (n div 2) + 1)"
  by pat_completeness auto
termination
  by (relation "measure nat") auto

declare bit_length.simps [simp del]

definition pow2 :: "int \<Rightarrow> rat" where
  "pow2 k = (if 0 \<le> k then 2 ^ nat k else 1 / 2 ^ nat (- k))"

definition ilog2 :: "int \<Rightarrow> int \<Rightarrow> int" where
  "ilog2 n d =
     (let k = bit_length n - bit_length d
      in if pow2 k * of_int d \<le> of_int n then k else k - 1)"

definition round_half_even :: "rat \<Rightarrow> int" where
  "round_half_even x =
     (let f = \<lfloor>x\<rfloor>; d = x - of_int f
      in if d < 1 / 2 then f else if 1 / 2 < d then f + 1
         else if even f then f else f + 1)"

definition round64 :: "int \<Rightarrow> int \<Rightarrow> rat option" where
  "round64 n d =
     (let e = max (ilog2 n d) (- 1022); ulp = pow2 (e - 52);
          v = of_int (round_half_even (of_int n / of_int d / ulp)) * ulp
      in if pow2 1024 \<le> v then None else Some v)"

text \<open>
  The float denoted by a sign, a decimal significand \<open>m \<ge> 0\<close> and a decimal exponent:
  \<open>m * 10 ^ e\<close> correctly rounded; an overflow gives an infinity and an underflow a zero,
  each with the sign.
\<close>

definition to_double :: "bool \<Rightarrow> int \<Rightarrow> int \<Rightarrow> pyfloat" where
  "to_double neg m e =
     (if m = 0 then (if neg then NegZero else Fin 0)
      else (case (if 0 \<le> e then round64 (m * 10 ^ nat e) 1 else round64 m (10 ^ nat (- e))) of
              None \<Rightarrow> if neg then NInf else PInf
            | Some v \<Rightarrow> if v = 0 then (if neg then NegZero else Fin 0)
                        else Fin (if neg then - v else v)))"

definition is_digit :: "char \<Rightarrow> bool" where
  "is_digit c = (c \<in> set ''0123456789'')"

definition digits_val :: "string \<Rightarrow> int" where
  "digits_val ds = foldl (\<lambda>a c. 10 * a + (int (of_char c) - 48)) 0 ds"

text \<open>
  The characters \<^verbatim>\<open>float\<close> strips from both ends: the ASCII white space, and the two
  other space characters below 256 (next line, no-break space), which it first turns
  into blanks.
\<close>

definition is_space :: "char \<Rightarrow> bool" where
  "is_space c = (c \<in> set [CHR 0x09, CHR 0x0A, CHR 0x0B, CHR 0x0C, CHR 0x0D, CHR 0x20, CHR 0x85, CHR 0xA0])"

definition strip :: "string \<Rightarrow> string" where
  "strip s = rev (dropWhile is_space (rev (dropWhile is_space s)))"

text \<open>An underscore is accepted only between two digits.\<close>

fun underscores_ok :: "char \<Rightarrow> string \<Rightarrow> bool" where
  "underscores_ok prev [] = (prev \<noteq> CHR ''_'')"
| "underscores_ok prev (c # cs) =
     ((if c = CHR ''_'' then is_digit prev else if prev = CHR ''_'' then is_digit c else True)
      \<and> underscores_ok c cs)"

definition lower :: "char \<Rightarrow> char" where
  "lower c = (if c \<in> set ''ABCDEFGHIJKLMNOPQRSTUVWXYZ'' then char_of (of_char c + (32::nat)) else c)"

definition take_sign :: "string \<Rightarrow> bool \<times> string" where
  "take_sign s =
     (case s of
        [] \<Rightarrow> (False, [])
      | c # cs \<Rightarrow> if c = CHR ''-'' then (True, cs) else if c = CHR ''+'' then (False, cs)
                  else (False, s))"

definition parse_inf_or_nan :: "string \<Rightarrow> pyfloat option" where
  "parse_inf_or_nan s =
     (case take_sign s of (neg, r) \<Rightarrow>
        if map lower r = ''inf'' \<or> map lower r = ''infinity'' then Some (if neg then NInf else PInf)
        else if map lower r = ''nan'' then Some NaN
        else None)"

text \<open>
  A decimal literal: sign, digits, an optional point with digits, at least one digit in
  all, and an optional exponent that must have a digit; nothing may follow.
\<close>

definition parse_decimal :: "string \<Rightarrow> pyfloat option" where
  "parse_decimal s =
     (case take_sign s of (neg, r1) \<Rightarrow>
        let ip = takeWhile is_digit r1; r2 = dropWhile is_digit r1;
            has_point = (r2 \<noteq> [] \<and> hd r2 = CHR ''.'');
            fp = (if has_point then takeWhile is_digit (tl r2) else []);
            r3 = (if has_point then dropWhile is_digit (tl r2) else r2)
        in if ip = [] \<and> fp = [] then None
           else if r3 = [] then Some (to_double neg (digits_val (ip @ fp)) (- int (length fp)))
           else if hd r3 = CHR ''e'' \<or> hd r3 = CHR ''E'' then
             (case take_sign (tl r3) of (eneg, r4) \<Rightarrow>
                if r4 \<noteq> [] \<and> list_all is_digit r4
                then Some (to_double neg (digits_val (ip @ fp))
                             ((if eneg then - digits_val r4 else digits_val r4) - int (length fp)))
                else None)
           else None)"

definition py_float :: "string \<Rightarrow> perr + pyfloat" where
  "py_float s =
     (if \<not> underscores_ok (CHR 0x00) s then Inl (ValueError (''could not convert string to float: '' @ py_repr s))
      else let t = remove_char (CHR ''_'') (strip s)
           in (case parse_decimal t of
                 Some f \<Rightarrow> Inr f
               | None \<Rightarrow>
                   (case parse_inf_or_nan t of
                      Some f \<Rightarrow> Inr f
                    | None \<Rightarrow> Inl (ValueError (''could not convert string to float: '' @ py_repr s)))))"

section \<open>The robot controller behind the vendor library\<close>

text \<open>
  The vendor classes \<^verbatim>\<open>DobotApiDashboard\<close>, \<^verbatim>\<open>DobotApiMove\<close> and \<^verbatim>\<open>DobotApi\<close> are not part
  of this repository. A method call on one of them either returns the controller's reply,
  a string, or raises an exception whose \<^verbatim>\<open>str\<close> is the fault text. What the controller
  answers may depend on everything it was asked before, so it is a function of the
  history of calls; the handlers append to that history.
\<close>

datatype call =
    GetErrorID
  | EnableRobot
  | DisableRobot
  | ResetRobot
  | GetPose
  | MovJ json json json json
  | MovL json json json json
  | Sync
  | SpeedFactor json

datatype outcome = Reply string | Fault string

type_synonym log = "(call \<times> outcome) list"

type_synonym robot = "log \<Rightarrow> call \<Rightarrow> outcome"

definition invoke :: "robot \<Rightarrow> call \<Rightarrow> log \<Rightarrow> outcome \<times> log" where
  "invoke rb c lg = (rb lg c, lg @ [(c, rb lg c)])"

subsection \<open>The three module-level handles\<close>

datatype client = Client string nat

record handles =
  dashboard :: "client option"
  move :: "client option"
  feed :: "client option"

definition ROBOT_IP :: string where
  "ROBOT_IP = ''192.168.1.6''"

text \<open>
  The start of the module: the three constructors run in one \<^verbatim>\<open>try\<close> block, and the
  \<^verbatim>\<open>except\<close> branch sets all three names to \<^verbatim>\<open>None\<close>. \<open>connects host port\<close> says whether
  the constructor for that port returns.
\<close>

definition startup :: "(string \<Rightarrow> nat \<Rightarrow> bool) \<Rightarrow> handles" where
  "startup connects =
     (if connects ROBOT_IP 29999 \<and> connects ROBOT_IP 30003 \<and> connects ROBOT_IP 30004
      then \<lparr>dashboard = Some (Client ROBOT_IP 29999),
            move = Some (Client ROBOT_IP 30003),
            feed = Some (Client ROBOT_IP 30004)\<rparr>
      else \<lparr>dashboard = None, move = None, feed = None\<rparr>)"

section \<open>Requests, responses and the view functions\<close>

text \<open>
  Of a request the views read \<^verbatim>\<open>request.path\<close> and the value of \<^verbatim>\<open>request.get_json()\<close>
  (\<open>JNull\<close> when it returns \<^verbatim>\<open>None\<close>); the method is used by the URL map. A view either
  returns a JSON body with a status, or an exception leaves it (\<open>Raised\<close>) and the
  framework answers in its own way.
\<close>

record request =
  meth :: string
  path :: string
  get_json :: json

datatype result = Response nat json | Raised exn

definition error_json :: "string \<Rightarrow> json" where
  "error_json msg = JObj [(''status'', JStr ''error''), (''message'', JStr msg)]"

definition success_json :: "string \<Rightarrow> string \<Rightarrow> json" where
  "success_json msg robot_response =
     JObj [(''status'', JStr ''success''), (''message'', JStr msg),
           (''robot_response'', JStr robot_response)]"

text \<open>
  \<^verbatim>\<open>return body, status\<close>: the status of the pair, and 200 where the view gives none.
\<close>

fun with_status :: "json \<Rightarrow> nat option \<Rightarrow> result" where
  "with_status body (Some status_code) = Response status_code body"
| "with_status body None = Response 200 body"

definition check_dobot_connection :: "handles \<Rightarrow> bool \<times> json \<times> nat option" where
  "check_dobot_connection hs =
     (if dashboard hs = None \<or> move hs = None \<or> feed hs = None
      then (False, error_json ''Dobot is not connected. Check the server logs for details.'', Some 503)
      else (True, JNull, None))"

definition connection_check :: "handles \<Rightarrow> robot \<Rightarrow> log \<Rightarrow> result \<times> log" where
  "connection_check hs rb lg =
     (case (if dashboard hs = None then (False, lg)
            else (case invoke rb GetErrorID lg of
                    (Reply r, lg1) \<Rightarrow> (True, lg1)
                  | (Fault e, lg1) \<Rightarrow> (False, lg1))) of
        (status_dashboard, lg1) \<Rightarrow>
          (Response 200
             (JObj [(''dashboard'', JBool status_dashboard),
                    (''move'', JBool (move hs \<noteq> None \<and> status_dashboard)),
                    (''feed'', JBool (feed hs \<noteq> None \<and> status_dashboard))]),
           lg1))"

definition enable_robot :: "handles \<Rightarrow> robot \<Rightarrow> log \<Rightarrow> result \<times> log" where
  "enable_robot hs rb lg =
     (case check_dobot_connection hs of (is_connected, error_response, status_code) \<Rightarrow>
        if \<not> is_connected then (with_status error_response status_code, lg)
        else (case invoke rb EnableRobot lg of
                (Reply r, lg1) \<Rightarrow> (Response 200 (success_json ''Robot enabled.'' r), lg1)
              | (Fault e, lg1) \<Rightarrow> (Response 500 (error_json e), lg1)))"

definition disable_robot :: "handles \<Rightarrow> robot \<Rightarrow> log \<Rightarrow> result \<times> log" where
  "disable_robot hs rb lg =
     (case check_dobot_connection hs of (is_connected, error_response, status_code) \<Rightarrow>
        if \<not> is_connected then (with_status error_response status_code, lg)
        else (case invoke rb DisableRobot lg of
                (Reply r, lg1) \<Rightarrow> (Response 200 (success_json ''Robot disabled.'' r), lg1)
              | (Fault e, lg1) \<Rightarrow> (Response 500 (error_json e), lg1)))"

definition stop_robot :: "handles \<Rightarrow> robot \<Rightarrow> log \<Rightarrow> result \<times> log" where
  "stop_robot hs rb lg =
     (case check_dobot_connection hs of (is_connected, error_response, status_code) \<Rightarrow>
        if \<not> is_connected then (with_status error_response status_code, lg)
        else (case invoke rb ResetRobot lg of
                (Reply r, lg1) \<Rightarrow>
                  (Response 200 (success_json ''Robot stopped and queue cleared.'' r), lg1)
              | (Fault e, lg1) \<Rightarrow> (Response 500 (error_json e), lg1)))"

subsection \<open>Position\<close>

text \<open>\<^verbatim>\<open>str(e)\<close> for the two exceptions of the parser.\<close>

fun str_perr :: "perr \<Rightarrow> string" where
  "str_perr IndexError = ''list index out of range''"
| "str_perr (ValueError msg) = msg"

text \<open>
  \<^verbatim>\<open>[float(c) for c in cs]\<close>: the conversions run from the left and the first one that
  fails ends the comprehension.
\<close>

fun floats :: "string list \<Rightarrow> perr + pyfloat list" where
  "floats [] = Inr []"
| "floats (c # cs) =
     (case py_float c of
        Inl e \<Rightarrow> Inl e
      | Inr f \<Rightarrow> (case floats cs of Inl e \<Rightarrow> Inl e | Inr fs \<Rightarrow> Inr (f # fs)))"

text \<open>
  The statements of \<^verbatim>\<open>get_position\<close> that follow the remote call inside its \<^verbatim>\<open>try\<close>
  block, up to the argument of \<^verbatim>\<open>jsonify\<close>.
\<close>

definition position_body :: "string \<Rightarrow> perr + json" where
  "position_body pose_str =
     (let parts = split_on (CHR ''('') (remove_char (CHR '')'') pose_str)
      in case item parts 1 of
           Inl e \<Rightarrow> Inl e
         | Inr coords_str \<Rightarrow>
        (case floats (split_on (CHR '','') coords_str) of
           Inl e \<Rightarrow> Inl e
         | Inr coords \<Rightarrow>
        (case item coords 0 of
           Inl e \<Rightarrow> Inl e
         | Inr x \<Rightarrow>
        (case item coords 1 of
           Inl e \<Rightarrow> Inl e
         | Inr y \<Rightarrow>
        (case item coords 2 of
           Inl e \<Rightarrow> Inl e
         | Inr z \<Rightarrow>
        (case item coords 3 of
           Inl e \<Rightarrow> Inl e
         | Inr r \<Rightarrow>
             Inr (JObj [(''status'', JStr ''success''),
                        (''position'', JObj [(''x'', JFloat x), (''y'', JFloat y),
                                             (''z'', JFloat z), (''r'', JFloat r)]),
                        (''robot_response'', JStr pose_str)])))))))"

definition get_position :: "handles \<Rightarrow> robot \<Rightarrow> log \<Rightarrow> result \<times> log" where
  "get_position hs rb lg =
     (case check_dobot_connection hs of (is_connected, error_response, status_code) \<Rightarrow>
        if \<not> is_connected then (with_status error_response status_code, lg)
        else (case invoke rb GetPose lg of
                (Reply pose_str, lg1) \<Rightarrow>
                  (case position_body pose_str of
                     Inr body \<Rightarrow> (Response 200 body, lg1)
                   | Inl e \<Rightarrow>
                       (Response 500 (error_json (''Failed to parse position: '' @ str_perr e)), lg1))
              | (Fault e, lg1) \<Rightarrow>
                  (Response 500 (error_json (''Failed to parse position: '' @ e)), lg1)))"

subsection \<open>Motion\<close>

text \<open>
  The success message of \<^verbatim>\<open>move_robot\<close> and of \<^verbatim>\<open>set_speed\<close> is an f-string over values
  taken from the body as they are; \<open>str_of\<close> stands for Python's \<^verbatim>\<open>str\<close> on them. It is
  a parameter: no property below depends on the text it produces.
\<close>

definition move_robot :: "(json \<Rightarrow> string) \<Rightarrow> handles \<Rightarrow> robot \<Rightarrow> request \<Rightarrow> log \<Rightarrow> result \<times> log" where
  "move_robot str_of hs rb req lg =
     (case check_dobot_connection hs of (is_connected, error_response, status_code) \<Rightarrow>
        if \<not> is_connected then (with_status error_response status_code, lg)
        else let data = get_json req
        in if \<not> truthy data
           then (Response 400 (error_json ''Invalid payload. Required keys: x, y, z, r''), lg)
           else (case all_in [''x'', ''y'', ''z'', ''r''] data of
                   Inl e \<Rightarrow> (Raised e, lg)
                 | Inr present \<Rightarrow>
           if \<not> present
           then (Response 400 (error_json ''Invalid payload. Required keys: x, y, z, r''), lg)
           else (case subscript data ''x'' of Inl e \<Rightarrow> (Raised e, lg) | Inr x \<Rightarrow>
                (case subscript data ''y'' of Inl e \<Rightarrow> (Raised e, lg) | Inr y \<Rightarrow>
                (case subscript data ''z'' of Inl e \<Rightarrow> (Raised e, lg) | Inr z \<Rightarrow>
                (case subscript data ''r'' of Inl e \<Rightarrow> (Raised e, lg) | Inr r \<Rightarrow>
                   let move_type = (if substring_in ''move/j'' (path req) then ''MovJ'' else ''MovL'')
                   in (case invoke rb (if move_type = ''MovJ'' then MovJ x y z r else MovL x y z r) lg of
                         (Fault e, lg1) \<Rightarrow> (Response 500 (error_json e), lg1)
                       | (Reply res, lg1) \<Rightarrow>
                      (case invoke rb Sync lg1 of
                         (Fault e, lg2) \<Rightarrow> (Response 500 (error_json e), lg2)
                       | (Reply done, lg2) \<Rightarrow>
                           (Response 200
                              (success_json
                                 (''Executing '' @ move_type @ '' to ('' @ str_of x @ '', '' @ str_of y
                                    @ '', '' @ str_of z @ '', '' @ str_of r
                                    @ '') and waiting for completion.'')
                                 res),
                            lg2)))))))))"

subsection \<open>Speed\<close>

definition set_speed :: "(json \<Rightarrow> string) \<Rightarrow> handles \<Rightarrow> robot \<Rightarrow> request \<Rightarrow> log \<Rightarrow> result \<times> log" where
  "set_speed str_of hs rb req lg =
     (case check_dobot_connection hs of (is_connected, error_response, status_code) \<Rightarrow>
        if \<not> is_connected then (with_status error_response status_code, lg)
        else let data = get_json req
        in if \<not> truthy data
           then (Response 400 (error_json ''Invalid payload. Required key: ratio''), lg)
           else (case py_in ''ratio'' data of
                   Inl e \<Rightarrow> (Raised e, lg)
                 | Inr present \<Rightarrow>
           if \<not> present
           then (Response 400 (error_json ''Invalid payload. Required key: ratio''), lg)
           else (case subscript data ''ratio'' of Inl e \<Rightarrow> (Raised e, lg) | Inr ratio \<Rightarrow>
                (case between 1 ratio 100 of
                   Inl e \<Rightarrow> (Raised e, lg)
                 | Inr in_range \<Rightarrow>
                if \<not> in_range
                then (Response 400 (error_json ''Speed ratio must be between 1 and 100.''), lg)
                else (case invoke rb (SpeedFactor ratio) lg of
                        (Reply res, lg1) \<Rightarrow>
                          (Response 200
                             (success_json (''Global speed set to '' @ str_of ratio @ ''%.'') res),
                           lg1)
                      | (Fault e, lg1) \<Rightarrow> (Response 500 (error_json e), lg1))))))"

subsection \<open>The URL map\<close>

text \<open>
  The \<^verbatim>\<open>@app.route\<close> decorators of the JSON API, each with its method and rule. The page
  route \<^verbatim>\<open>/\<close> renders a template and is not part of the API; a request that matches no
  entry is answered by the framework (\<open>None\<close>).
\<close>

datatype view =
    V_connection_check
  | V_enable_robot
  | V_disable_robot
  | V_stop_robot
  | V_get_position
  | V_move_robot
  | V_set_speed

definition url_map :: "((string \<times> string) \<times> view) list" where
  "url_map =
     [((''GET'', ''/api/connection/check''), V_connection_check),
      ((''POST'', ''/api/robot/enable''), V_enable_robot),
      ((''POST'', ''/api/robot/disable''), V_disable_robot),
      ((''POST'', ''/api/robot/stop''), V_stop_robot),
      ((''GET'', ''/api/robot/position''), V_get_position),
      ((''POST'', ''/api/robot/move/j''), V_move_robot),
      ((''POST'', ''/api/robot/move/l''), V_move_robot),
      ((''POST'', ''/api/robot/speed''), V_set_speed)]"

fun call_view :: "(json \<Rightarrow> string) \<Rightarrow> handles \<Rightarrow> robot \<Rightarrow> view \<Rightarrow> request \<Rightarrow> log \<Rightarrow> result \<times> log" where
  "call_view str_of hs rb V_connection_check req lg = connection_check hs rb lg"
| "call_view str_of hs rb V_enable_robot req lg = enable_robot hs rb lg"
| "call_view str_of hs rb V_disable_robot req lg = disable_robot hs rb lg"
| "call_view str_of hs rb V_stop_robot req lg = stop_robot hs rb lg"
| "call_view str_of hs rb V_get_position req lg = get_position hs rb lg"
| "call_view str_of hs rb V_move_robot req lg = move_robot str_of hs rb req lg"
| "call_view str_of hs rb V_set_speed req lg = set_speed str_of hs rb req lg"

definition serve :: "(json \<Rightarrow> string) \<Rightarrow> handles \<Rightarrow> robot \<Rightarrow> request \<Rightarrow> log \<Rightarrow> (result \<times> log) option" where
  "serve str_of hs rb req lg =
     (case map_of url_map (meth req, path req) of
        None \<Rightarrow> None
      | Some v \<Rightarrow> Some (call_view str_of hs rb v req lg))"

subsection \<open>Vocabulary of the properties\<close>

text \<open>All three handles were created at start-up.\<close>

definition handles_present :: "handles \<Rightarrow> bool" where
  "handles_present hs = (dashboard hs \<noteq> None \<and> move hs \<noteq> None \<and> feed hs \<noteq> None)"

text \<open>The endpoints that begin with \<^verbatim>\<open>check_dobot_connection\<close>: all but the connection check.\<close>

definition protected_endpoints :: "(string \<times> string) list" where
  "protected_endpoints =
     [(''POST'', ''/api/robot/enable''),
      (''POST'', ''/api/robot/disable''),
      (''POST'', ''/api/robot/stop''),
      (''GET'', ''/api/robot/position''),
      (''POST'', ''/api/robot/move/j''),
      (''POST'', ''/api/robot/move/l''),
      (''POST'', ''/api/robot/speed'')]"

fun is_reply :: "outcome \<Rightarrow> bool" where
  "is_reply (Reply r) = True"
| "is_reply (Fault e) = False"

text \<open>The values that order against an \<^verbatim>\<open>int\<close>: \<^verbatim>\<open>int\<close>, \<^verbatim>\<open>bool\<close> and \<^verbatim>\<open>float\<close>.\<close>

fun is_number :: "json \<Rightarrow> bool" where
  "is_number (JInt n) = True"
| "is_number (JBool b) = True"
| "is_number (JFloat f) = True"
| "is_number JNull = False"
| "is_number (JStr s) = False"
| "is_number (JArr xs) = False"
| "is_number (JObj kvs) = False"

text \<open>
  The list \<^verbatim>\<open>coords_str.split(',')\<close> of \<^verbatim>\<open>get_position\<close> for a reply that holds an
  opening parenthesis; the empty list for a reply that holds none.
\<close>

definition coord_strings :: "string \<Rightarrow> string list" where
  "coord_strings pose_str =
     (case item (split_on (CHR ''('') (remove_char (CHR '')'') pose_str)) 1 of
        Inl e \<Rightarrow> []
      | Inr coords_str \<Rightarrow> split_on (CHR '','') coords_str)"

definition not_connected_json :: json where
  "not_connected_json =
     JObj [(''status'', JStr ''error''),
           (''message'', JStr ''Dobot is not connected. Check the server logs for details.'')]"

section \<open>Properties\<close>

subsection \<open>The connection guard\<close>

lemma check_absent:
  "dashboard hs = None \<or> move hs = None \<or> feed hs = None \<Longrightarrow>
   check_dobot_connection hs = (False, not_connected_json, Some 503)"
  by (simp add: check_dobot_connection_def not_connected_json_def error_json_def)

lemma check_present:
  "handles_present hs \<Longrightarrow> check_dobot_connection hs = (True, JNull, None)"
  by (simp add: check_dobot_connection_def handles_present_def)

lemma startup_all_or_none:
  "handles_present (startup connects) \<or>
   startup connects = \<lparr>dashboard = None, move = None, feed = None\<rparr>"
  by (simp add: startup_def handles_present_def)

lemma route_protected:
  assumes "(meth req, path req) \<in> set protected_endpoints"
  shows "\<exists>v. map_of url_map (meth req, path req) = Some v \<and> v \<noteq> V_connection_check"
  using assms unfolding protected_endpoints_def url_map_def by auto

lemma call_view_absent:
  assumes "dashboard hs = None \<or> move hs = None \<or> feed hs = None" and "v \<noteq> V_connection_check"
  shows "call_view str_of hs rb v req lg = (Response 503 not_connected_json, lg)"
  using assms(2) check_absent[OF assms(1)]
  by (cases v) (simp_all add: enable_robot_def disable_robot_def stop_robot_def get_position_def
      move_robot_def set_speed_def)

text \<open>
  C1. On each of the seven protected endpoints (enable, disable, stop, position, move/j,
  move/l, speed), when one of the three handles is \<^verbatim>\<open>None\<close> the answer is the status 503
  with the body \<^verbatim>\<open>{"status": "error", "message": "Dobot is not connected. ..."}\<close>, and
  the controller is not called.
\<close>

theorem absent_handle_gives_503:
  assumes "dashboard hs = None \<or> move hs = None \<or> feed hs = None"
    and "(meth req, path req) \<in> set protected_endpoints"
  shows "serve str_of hs rb req lg =
           Some (Response 503
                   (JObj [(''status'', JStr ''error''),
                          (''message'', JStr ''Dobot is not connected. Check the server logs for details.'')]),
                 lg)"
proof -
  obtain v where v: "map_of url_map (meth req, path req) = Some v" "v \<noteq> V_connection_check"
    using route_protected[OF assms(2)] by blast
  show ?thesis
    using call_view_absent[OF assms(1) v(2)] v(1)
    by (simp add: serve_def not_connected_json_def)
qed

theorem absent_handle_gives_503_witness:
  "feed (startup (\<lambda>host port. port \<noteq> 30004)) = None \<and>
   serve (\<lambda>v. ''?'') (startup (\<lambda>host port. port \<noteq> 30004)) (\<lambda>lg c. Reply ''0'')
      \<lparr>meth = ''POST'', path = ''/api/robot/enable'', get_json = JNull\<rparr> [] =
           Some (Response 503
                   (JObj [(''status'', JStr ''error''),
                          (''message'', JStr ''Dobot is not connected. Check the server logs for details.'')]),
                 [])"
  using absent_handle_gives_503[of "startup (\<lambda>host port. port \<noteq> 30004)"
      "\<lparr>meth = ''POST'', path = ''/api/robot/enable'', get_json = JNull\<rparr>"
      "\<lambda>v. ''?''" "\<lambda>lg c. Reply ''0''" "[]"]
  by (simp add: startup_def protected_endpoints_def)

lemma route_simps:
  "map_of url_map (''GET'', ''/api/connection/check'') = Some V_connection_check"
  "map_of url_map (''POST'', ''/api/robot/enable'') = Some V_enable_robot"
  "map_of url_map (''POST'', ''/api/robot/disable'') = Some V_disable_robot"
  "map_of url_map (''POST'', ''/api/robot/stop'') = Some V_stop_robot"
  "map_of url_map (''GET'', ''/api/robot/position'') = Some V_get_position"
  "map_of url_map (''POST'', ''/api/robot/move/j'') = Some V_move_robot"
  "map_of url_map (''POST'', ''/api/robot/move/l'') = Some V_move_robot"
  "map_of url_map (''POST'', ''/api/robot/speed'') = Some V_set_speed"
  by (simp_all add: url_map_def)


subsection \<open>Faults of the controller\<close>











subsection \<open>The position reply\<close>

lemma example_parts:
  "split_on (CHR ''('') (remove_char (CHR '')'') ''0,{},GetPose(1.0,2.0,3.0,4.0)'') =
     [''0,{},GetPose'', ''1.0,2.0,3.0,4.0'']"
  by (simp add: remove_char_def)

lemma example_coords:
  "split_on (CHR '','') ''1.0,2.0,3.0,4.0'' = [''1.0'', ''2.0'', ''3.0'', ''4.0'']"
  by simp

lemmas float_defs =
  py_float_def is_digit_def strip_def is_space_def remove_char_def parse_decimal_def
  take_sign_def Let_def parse_inf_or_nan_def lower_def digits_val_def to_double_def
  round64_def ilog2_def pow2_def bit_length.simps round_half_even_def

lemma example_floats:
  "py_float ''1.0'' = Inr (Fin 1)" "py_float ''2.0'' = Inr (Fin 2)"
  "py_float ''3.0'' = Inr (Fin 3)" "py_float ''4.0'' = Inr (Fin 4)"
  by (simp_all add: float_defs)

lemma position_body_example:
  "position_body ''0,{},GetPose(1.0,2.0,3.0,4.0)'' =
     Inr (JObj [(''status'', JStr ''success''),
                (''position'', JObj [(''x'', JFloat (Fin 1)), (''y'', JFloat (Fin 2)),
                                     (''z'', JFloat (Fin 3)), (''r'', JFloat (Fin 4))]),
                (''robot_response'', JStr ''0,{},GetPose(1.0,2.0,3.0,4.0)'')])"
  by (simp add: position_body_def example_parts example_coords example_floats item_def)

text \<open>
  C3. With all handles present, when \<^verbatim>\<open>GetPose\<close> returns
  \<^verbatim>\<open>"0,{},GetPose(1.0,2.0,3.0,4.0)"\<close> the position endpoint answers 200 with
  \<^verbatim>\<open>"status": "success"\<close>, the position \<^verbatim>\<open>{x: 1.0, y: 2.0, z: 3.0, r: 4.0}\<close> (the four
  numbers between the parentheses, in order) and the reply itself under
  \<^verbatim>\<open>robot_response\<close>; \<^verbatim>\<open>GetPose\<close> is the only call made.
\<close>

theorem position_reply_parsed:
  assumes "handles_present hs"
    and "rb lg GetPose = Reply ''0,{},GetPose(1.0,2.0,3.0,4.0)''"
  shows "serve str_of hs rb \<lparr>meth = ''GET'', path = ''/api/robot/position'', get_json = body\<rparr> lg =
     Some (Response 200
             (JObj [(''status'', JStr ''success''),
                    (''position'', JObj [(''x'', JFloat (Fin 1)), (''y'', JFloat (Fin 2)),
                                         (''z'', JFloat (Fin 3)), (''r'', JFloat (Fin 4))]),
                    (''robot_response'', JStr ''0,{},GetPose(1.0,2.0,3.0,4.0)'')]),
           lg @ [(GetPose, Reply ''0,{},GetPose(1.0,2.0,3.0,4.0)'')])"
  using assms(2) check_present[OF assms(1)]
  by (simp add: serve_def route_simps get_position_def invoke_def position_body_example)

theorem position_reply_parsed_witness:
  "handles_present (startup (\<lambda>host port. True)) \<and>
   serve (\<lambda>v. ''?'') (startup (\<lambda>host port. True)) (\<lambda>lg c. Reply ''0,{},GetPose(1.0,2.0,3.0,4.0)'')
     \<lparr>meth = ''GET'', path = ''/api/robot/position'', get_json = JNull\<rparr> [] =
     Some (Response 200
             (JObj [(''status'', JStr ''success''),
                    (''position'', JObj [(''x'', JFloat (Fin 1)), (''y'', JFloat (Fin 2)),
                                         (''z'', JFloat (Fin 3)), (''r'', JFloat (Fin 4))]),
                    (''robot_response'', JStr ''0,{},GetPose(1.0,2.0,3.0,4.0)'')]),
           [(GetPose, Reply ''0,{},GetPose(1.0,2.0,3.0,4.0)'')])"
  using position_reply_parsed[of "startup (\<lambda>host port. True)"
      "\<lambda>lg c. Reply ''0,{},GetPose(1.0,2.0,3.0,4.0)''" "[]" "\<lambda>v. ''?''" JNull]
  by (simp add: startup_def handles_present_def)

subsection \<open>The speed ratio\<close>

lemma map_of_in_keys: "map_of kvs k = Some v \<Longrightarrow> kvs \<noteq> [] \<and> k \<in> set (map fst kvs)"
  using map_of_SomeD[of kvs k v] by force

lemma between_int: "between lo (JInt n) hi = Inr (lo \<le> n \<and> n \<le> hi)"
  by (simp add: between_def)

lemma between_not_number: "\<not> is_number v \<Longrightarrow> between lo v hi = Inl TypeError"
  by (cases v) (simp_all add: between_def)

text \<open>
  C4. With all handles present and a body whose \<^verbatim>\<open>ratio\<close> is the integer \<open>n\<close>: for
  \<open>n\<close> below 1 or above 100 the speed endpoint answers 400 and makes no call; for every
  other \<open>n\<close>, the bounds 1 and 100 included, it makes the one call \<^verbatim>\<open>SpeedFactor(n)\<close> and
  answers from its outcome.
\<close>

theorem speed_ratio_range:
  assumes "handles_present hs"
    and "meth req = ''POST''" and "path req = ''/api/robot/speed''"
    and "get_json req = JObj kvs" and "map_of kvs ''ratio'' = Some (JInt n)"
  shows "serve str_of hs rb req lg =
     Some (if n < 1 \<or> 100 < n
           then (Response 400
                   (JObj [(''status'', JStr ''error''),
                          (''message'', JStr ''Speed ratio must be between 1 and 100.'')]),
                 lg)
           else (case rb lg (SpeedFactor (JInt n)) of
                   Reply res \<Rightarrow>
                     Response 200
                       (JObj [(''status'', JStr ''success''),
                              (''message'', JStr (''Global speed set to '' @ str_of (JInt n) @ ''%.'')),
                              (''robot_response'', JStr res)])
                 | Fault e \<Rightarrow> Response 500 (JObj [(''status'', JStr ''error''), (''message'', JStr e)]),
                 lg @ [(SpeedFactor (JInt n), rb lg (SpeedFactor (JInt n)))]))"
  using assms(2-5) check_present[OF assms(1)] map_of_in_keys[OF assms(5)]
  by (cases "rb lg (SpeedFactor (JInt n))")
     (auto simp: serve_def route_simps set_speed_def between_int invoke_def error_json_def
        success_json_def)

theorem speed_ratio_range_witness:
  "serve (\<lambda>v. ''100'') (startup (\<lambda>host port. True)) (\<lambda>lg c. Reply ''0,{},SpeedFactor(100);'')
     \<lparr>meth = ''POST'', path = ''/api/robot/speed'', get_json = JObj [(''ratio'', JInt 100)]\<rparr> [] =
     Some (Response 200
             (JObj [(''status'', JStr ''success''),
                    (''message'', JStr ''Global speed set to 100%.''),
                    (''robot_response'', JStr ''0,{},SpeedFactor(100);'')]),
           [(SpeedFactor (JInt 100), Reply ''0,{},SpeedFactor(100);'')])
   \<and> serve (\<lambda>v. ''1'') (startup (\<lambda>host port. True)) (\<lambda>lg c. Reply ''0,{},SpeedFactor(1);'')
     \<lparr>meth = ''POST'', path = ''/api/robot/speed'', get_json = JObj [(''ratio'', JInt 1)]\<rparr> [] =
     Some (Response 200
             (JObj [(''status'', JStr ''success''),
                    (''message'', JStr ''Global speed set to 1%.''),
                    (''robot_response'', JStr ''0,{},SpeedFactor(1);'')]),
           [(SpeedFactor (JInt 1), Reply ''0,{},SpeedFactor(1);'')])
   \<and> serve (\<lambda>v. ''101'') (startup (\<lambda>host port. True)) (\<lambda>lg c. Reply ''0,{},SpeedFactor(101);'')
     \<lparr>meth = ''POST'', path = ''/api/robot/speed'', get_json = JObj [(''ratio'', JInt 101)]\<rparr> [] =
     Some (Response 400
             (JObj [(''status'', JStr ''error''),
                    (''message'', JStr ''Speed ratio must be between 1 and 100.'')]),
           [])"
  using
    speed_ratio_range[of "startup (\<lambda>host port. True)"
      "\<lparr>meth = ''POST'', path = ''/api/robot/speed'', get_json = JObj [(''ratio'', JInt 100)]\<rparr>"
      "[(''ratio'', JInt 100)]" 100 "\<lambda>v. ''100''" "\<lambda>lg c. Reply ''0,{},SpeedFactor(100);''" "[]"]
    speed_ratio_range[of "startup (\<lambda>host port. True)"
      "\<lparr>meth = ''POST'', path = ''/api/robot/speed'', get_json = JObj [(''ratio'', JInt 1)]\<rparr>"
      "[(''ratio'', JInt 1)]" 1 "\<lambda>v. ''1''" "\<lambda>lg c. Reply ''0,{},SpeedFactor(1);''" "[]"]
    speed_ratio_range[of "startup (\<lambda>host port. True)"
      "\<lparr>meth = ''POST'', path = ''/api/robot/speed'', get_json = JObj [(''ratio'', JInt 101)]\<rparr>"
      "[(''ratio'', JInt 101)]" 101 "\<lambda>v. ''101''" "\<lambda>lg c. Reply ''0,{},SpeedFactor(101);''" "[]"]
  by (simp add: startup_def handles_present_def)

text \<open>
  The comparison is the only check on the ratio: a fraction between the bounds is passed
  to the controller as it is.
\<close>

lemma speed_fraction_forwarded:
  assumes "handles_present hs"
    and "meth req = ''POST''" and "path req = ''/api/robot/speed''"
    and "get_json req = JObj kvs" and "map_of kvs ''ratio'' = Some (JFloat (Fin q))"
    and "1 \<le> q" and "q \<le> 100"
  shows "\<exists>res. serve str_of hs rb req lg =
           Some (res, lg @ [(SpeedFactor (JFloat (Fin q)), rb lg (SpeedFactor (JFloat (Fin q))))])"
  using assms(2-7) check_present[OF assms(1)] map_of_in_keys[OF assms(5)]
  by (cases "rb lg (SpeedFactor (JFloat (Fin q)))")
     (auto simp: serve_def route_simps set_speed_def between_def invoke_def)

text \<open>
  C10. With all handles present and a body whose \<^verbatim>\<open>ratio\<close> is present but is not a
  number (a string, \<^verbatim>\<open>null\<close>, a list, an object), the comparison \<^verbatim>\<open>1 <= ratio <= 100\<close>
  raises \<^verbatim>\<open>TypeError\<close> outside any \<^verbatim>\<open>try\<close> block: the exception leaves the view, which
  returns neither of its 400 bodies nor its 500 body, and the controller is not called.
\<close>

theorem speed_unordered_ratio_raises:
  assumes "handles_present hs"
    and "meth req = ''POST''" and "path req = ''/api/robot/speed''"
    and "get_json req = JObj kvs" and "map_of kvs ''ratio'' = Some ratio"
    and "\<not> is_number ratio"
  shows "serve str_of hs rb req lg = Some (Raised TypeError, lg)"
  using assms(2-5) check_present[OF assms(1)] between_not_number[OF assms(6)]
    map_of_in_keys[OF assms(5)]
  by (simp add: serve_def route_simps set_speed_def)

theorem speed_unordered_ratio_raises_witness:
  "\<not> is_number (JStr ''80'') \<and>
   serve (\<lambda>v. ''80'') (startup (\<lambda>host port. True)) (\<lambda>lg c. Reply ''0'')
     \<lparr>meth = ''POST'', path = ''/api/robot/speed'', get_json = JObj [(''ratio'', JStr ''80'')]\<rparr> [] =
     Some (Raised TypeError, [])"
  using speed_unordered_ratio_raises[of "startup (\<lambda>host port. True)"
      "\<lparr>meth = ''POST'', path = ''/api/robot/speed'', get_json = JObj [(''ratio'', JStr ''80'')]\<rparr>"
      "[(''ratio'', JStr ''80'')]" "JStr ''80''" "\<lambda>v. ''80''" "\<lambda>lg c. Reply ''0''" "[]"]
  by (simp add: startup_def handles_present_def)

subsection \<open>The move payload\<close>

lemma all_in_obj: "all_in ks (JObj kvs) = Inr (set ks \<subseteq> fst ` set kvs)"
  by (induction ks) auto

lemma subscript_obj: "map_of kvs k = Some v \<Longrightarrow> subscript (JObj kvs) k = Inr v"
  by simp

lemma move_type_paths:
  "substring_in ''move/j'' ''/api/robot/move/j''"
  "\<not> substring_in ''move/j'' ''/api/robot/move/l''"
  by simp_all

lemma serve_move:
  assumes "meth req = ''POST''"
    and "path req = ''/api/robot/move/j'' \<or> path req = ''/api/robot/move/l''"
  shows "serve str_of hs rb req lg = Some (move_robot str_of hs rb req lg)"
  using assms by (auto simp: serve_def route_simps)



text \<open>
  C7. With all handles present and a body that holds the four keys, a request to move/j
  issues exactly one motion call, \<^verbatim>\<open>MovJ(x, y, z, r)\<close>, and a request to move/l exactly
  one \<^verbatim>\<open>MovL(x, y, z, r)\<close>, as the first call. \<^verbatim>\<open>Sync()\<close> is called next, and nothing
  after it, as soon as the motion call has returned; the success answer is given exactly
  when both calls have returned, so never before \<^verbatim>\<open>Sync()\<close>.
\<close>

theorem move_issues_motion_then_sync:
  assumes "handles_present hs"
    and "meth req = ''POST''"
    and "path req = ''/api/robot/move/j'' \<or> path req = ''/api/robot/move/l''"
    and "get_json req = JObj kvs"
    and "map_of kvs ''x'' = Some x" and "map_of kvs ''y'' = Some y"
    and "map_of kvs ''z'' = Some z" and "map_of kvs ''r'' = Some r"
    and "cmd = (if path req = ''/api/robot/move/j'' then MovJ x y z r else MovL x y z r)"
  shows "\<exists>res lg'. serve str_of hs rb req lg = Some (res, lg')
           \<and> map fst (drop (length lg) lg') = (if is_reply (rb lg cmd) then [cmd, Sync] else [cmd])
           \<and> ((\<exists>body. res = Response 200 body)
                = (is_reply (rb lg cmd) \<and> is_reply (rb (lg @ [(cmd, rb lg cmd)]) Sync)))"
proof -
  note view = serve_move[OF assms(2,3)]
  have keys: "all_in [''x'', ''y'', ''z'', ''r''] (JObj kvs) = Inr True"
    using map_of_in_keys[OF assms(5)] map_of_in_keys[OF assms(6)] map_of_in_keys[OF assms(7)]
      map_of_in_keys[OF assms(8)] by (simp add: all_in_obj)
  have nonempty: "truthy (JObj kvs)"
    using map_of_in_keys[OF assms(5)] by simp
  have cmd: "(if (if substring_in ''move/j'' (path req) then ''MovJ'' else ''MovL'') = ''MovJ''
              then MovJ x y z r else MovL x y z r) = cmd"
    using assms(3,9) move_type_paths by auto
  have run: "move_robot str_of hs rb req lg =
     (case invoke rb cmd lg of
        (Fault e, lg1) \<Rightarrow> (Response 500 (error_json e), lg1)
      | (Reply res, lg1) \<Rightarrow>
          (case invoke rb Sync lg1 of
             (Fault e, lg2) \<Rightarrow> (Response 500 (error_json e), lg2)
           | (Reply done, lg2) \<Rightarrow>
               (Response 200
                  (success_json
                     (''Executing '' @ (if substring_in ''move/j'' (path req) then ''MovJ'' else ''MovL'')
                        @ '' to ('' @ str_of x @ '', '' @ str_of y @ '', '' @ str_of z @ '', '' @ str_of r
                        @ '') and waiting for completion.'')
                     res),
                lg2)))"
    unfolding move_robot_def
    using check_present[OF assms(1)] assms(4) keys nonempty cmd
      subscript_obj[OF assms(5)] subscript_obj[OF assms(6)] subscript_obj[OF assms(7)]
      subscript_obj[OF assms(8)]
    by (simp add: Let_def del: subscript.simps all_in.simps truthy.simps)
  show ?thesis
    unfolding view run
    by (cases "rb lg cmd"; cases "rb (lg @ [(cmd, rb lg cmd)]) Sync") (simp_all add: invoke_def)
qed

theorem move_issues_motion_then_sync_witness:
  "\<exists>res lg'.
     serve (\<lambda>v. ''?'') (startup (\<lambda>host port. True)) (\<lambda>lg c. Reply ''0'')
       \<lparr>meth = ''POST'', path = ''/api/robot/move/j'',
         get_json = JObj [(''x'', JInt 200), (''y'', JInt 100), (''z'', JInt 50), (''r'', JInt 0)]\<rparr>
       [] = Some (res, lg')
     \<and> map fst lg' = [MovJ (JInt 200) (JInt 100) (JInt 50) (JInt 0), Sync]
     \<and> (\<exists>body. res = Response 200 body)"
  using move_issues_motion_then_sync[of "startup (\<lambda>host port. True)"
      "\<lparr>meth = ''POST'', path = ''/api/robot/move/j'',
         get_json = JObj [(''x'', JInt 200), (''y'', JInt 100), (''z'', JInt 50), (''r'', JInt 0)]\<rparr>"
      "[(''x'', JInt 200), (''y'', JInt 100), (''z'', JInt 50), (''r'', JInt 0)]"
      "JInt 200" "JInt 100" "JInt 50" "JInt 0" "MovJ (JInt 200) (JInt 100) (JInt 50) (JInt 0)"
      "\<lambda>v. ''?''" "\<lambda>lg c. Reply ''0''" "[]"]
  by (simp add: startup_def handles_present_def)

subsection \<open>The connection check\<close>

text \<open>
  C6. The connection check always answers 200 with the three booleans \<^verbatim>\<open>dashboard\<close>,
  \<^verbatim>\<open>move\<close>, \<^verbatim>\<open>feed\<close>: \<^verbatim>\<open>dashboard\<close> is true exactly when the dashboard handle exists
  and the one \<^verbatim>\<open>GetErrorID\<close> call on it returns; \<^verbatim>\<open>move\<close> and \<^verbatim>\<open>feed\<close> are true
  exactly when their handle exists and \<^verbatim>\<open>dashboard\<close> is true. \<^verbatim>\<open>GetErrorID\<close> is called
  once when the dashboard handle exists and no call is made otherwise.
\<close>

theorem connection_check_reports:
  "serve str_of hs rb \<lparr>meth = ''GET'', path = ''/api/connection/check'', get_json = body\<rparr> lg =
     Some (Response 200
             (JObj [(''dashboard'', JBool (dashboard hs \<noteq> None \<and> is_reply (rb lg GetErrorID))),
                    (''move'', JBool (move hs \<noteq> None
                                      \<and> (dashboard hs \<noteq> None \<and> is_reply (rb lg GetErrorID)))),
                    (''feed'', JBool (feed hs \<noteq> None
                                      \<and> (dashboard hs \<noteq> None \<and> is_reply (rb lg GetErrorID))))]),
           if dashboard hs = None then lg else lg @ [(GetErrorID, rb lg GetErrorID)])"
  by (cases "rb lg GetErrorID")
     (simp_all add: serve_def route_simps connection_check_def invoke_def)

theorem connection_check_reports_witness:
  "serve (\<lambda>v. ''?'')
     \<lparr>dashboard = Some (Client ROBOT_IP 29999), move = Some (Client ROBOT_IP 30003), feed = None\<rparr>
     (\<lambda>lg c. Fault ''timed out'')
     \<lparr>meth = ''GET'', path = ''/api/connection/check'', get_json = JNull\<rparr> [] =
     Some (Response 200
             (JObj [(''dashboard'', JBool False), (''move'', JBool False), (''feed'', JBool False)]),
           [(GetErrorID, Fault ''timed out'')])"
  using connection_check_reports[of "\<lambda>v. ''?''"
      "\<lparr>dashboard = Some (Client ROBOT_IP 29999), move = Some (Client ROBOT_IP 30003), feed = None\<rparr>"
      "\<lambda>lg c. Fault ''timed out''" JNull "[]"]
  by simp

subsection \<open>Replies that do not parse\<close>

lemma length_split_on: "length (split_on sep s) = Suc (length (filter (\<lambda>c. c = sep) s))"
  by (induction s) (auto split: list.splits)

lemma split_on_has_second: "(1 < length (split_on sep s)) = (sep \<in> set s)"
  by (simp add: length_split_on filter_empty_conv)

lemma paren_survives: "(CHR ''('' \<in> set (remove_char (CHR '')'') s)) = (CHR ''('' \<in> set s)"
  by (auto simp: remove_char_def)

lemma item_parts:
  "item (split_on (CHR ''('') (remove_char (CHR '')'') s)) 1 = Inl e \<longleftrightarrow>
     (CHR ''('' \<notin> set s \<and> e = IndexError)"
  using split_on_has_second[of "CHR ''(''" "remove_char (CHR '')'') s"]
  by (auto simp: item_def paren_survives)

lemma py_float_error:
  "py_float c = Inl e \<Longrightarrow> e = ValueError (''could not convert string to float: '' @ py_repr c)"
  by (auto simp: py_float_def Let_def split: if_splits option.splits)

lemma floats_Inr:
  "floats cs = Inr fs \<Longrightarrow> length fs = length cs \<and> (\<forall>c \<in> set cs. \<not> isl (py_float c))"
  by (induction cs arbitrary: fs) (auto split: sum.splits)

lemma floats_Inl: "floats cs = Inl e \<Longrightarrow> \<exists>c \<in> set cs. py_float c = Inl e"
  by (induction cs) (auto split: sum.splits)

lemma floats_fails_iff: "(\<exists>e. floats cs = Inl e) = (\<exists>c \<in> set cs. isl (py_float c))"
proof
  assume "\<exists>e. floats cs = Inl e"
  then show "\<exists>c \<in> set cs. isl (py_float c)"
    by (force dest!: floats_Inl)
next
  assume "\<exists>c \<in> set cs. isl (py_float c)"
  then show "\<exists>e. floats cs = Inl e"
    by (cases "floats cs") (auto dest: floats_Inr)
qed

text \<open>
  The three ways in which the parser fails: no opening parenthesis, a piece that
  \<^verbatim>\<open>float\<close> rejects, fewer than four pieces. Each ends in one of its two exceptions.
\<close>

lemma position_body_fails:
  assumes "CHR ''('' \<notin> set s \<or> (\<exists>c \<in> set (coord_strings s). isl (py_float c))
           \<or> length (coord_strings s) < 4"
  shows "position_body s = Inl IndexError \<or>
         (\<exists>c \<in> set (coord_strings s).
            position_body s = Inl (ValueError (''could not convert string to float: '' @ py_repr c)))"
proof (cases "item (split_on (CHR ''('') (remove_char (CHR '')'') s)) 1")
  case (Inl e)
  with item_parts[of s e] have "e = IndexError"
    by simp
  with Inl show ?thesis
    by (simp add: position_body_def)
next
  case (Inr coords_str)
  then have cs: "coord_strings s = split_on (CHR '','') coords_str"
    by (simp add: coord_strings_def)
  have paren: "CHR ''('' \<in> set s"
    using Inr item_parts[of s IndexError] by auto
  show ?thesis
  proof (cases "floats (split_on (CHR '','') coords_str)")
    case (Inl e)
    then obtain c where "c \<in> set (coord_strings s)" "py_float c = Inl e"
      using floats_Inl cs by force
    then show ?thesis
      using Inl Inr py_float_error[of c e] by (auto simp: position_body_def)
  next
    case fl: (Inr coords)
    from floats_Inr[OF fl] assms paren cs have "length coords < 4"
      by auto
    then show ?thesis
      using Inr fl by (auto simp: position_body_def item_def)
  qed
qed

text \<open>They are the only ways: any other reply is parsed.\<close>

lemma position_body_succeeds:
  assumes "CHR ''('' \<in> set s" and "\<forall>c \<in> set (coord_strings s). \<not> isl (py_float c)"
    and "4 \<le> length (coord_strings s)"
  shows "\<exists>body. position_body s = Inr body"
proof -
  obtain coords_str
    where a: "item (split_on (CHR ''('') (remove_char (CHR '')'') s)) 1 = Inr coords_str"
    using assms(1) item_parts[of s]
    by (cases "item (split_on (CHR ''('') (remove_char (CHR '')'') s)) 1") auto
  then have cs: "coord_strings s = split_on (CHR '','') coords_str"
    by (simp add: coord_strings_def)
  obtain coords where b: "floats (split_on (CHR '','') coords_str) = Inr coords"
    using floats_fails_iff[of "split_on (CHR '','') coords_str"] assms(2) cs
    by (cases "floats (split_on (CHR '','') coords_str)") auto
  from floats_Inr[OF b] assms(3) cs have "4 \<le> length coords"
    by simp
  then show ?thesis
    using a b by (auto simp: position_body_def item_def)
qed

lemma example_bad_reply:
  "coord_strings ''0,{},GetPose(1.0,abc,3.0,4.0)'' = [''1.0'', ''abc'', ''3.0'', ''4.0'']"
  "isl (py_float ''abc'')"
  "py_repr ''abc'' = [CHR 0x27, CHR ''a'', CHR ''b'', CHR ''c'', CHR 0x27]"
  by (simp_all add: coord_strings_def item_def float_defs py_repr_def repr_char_def printable_def)

text \<open>
  C8. With all handles present, when the reply of \<^verbatim>\<open>GetPose\<close> does not parse (it has no
  opening parenthesis, or one of the comma-separated pieces after it is not a number for
  \<^verbatim>\<open>float\<close>, or there are fewer than four pieces) the position endpoint answers 500 with
  \<^verbatim>\<open>"status": "error"\<close> and one free-text message: \<^verbatim>\<open>Failed to parse position: \<close>
  followed by the text of the Python exception, with no error code or kind beside it.
\<close>

theorem position_parse_failure_gives_500:
  assumes "handles_present hs"
    and "rb lg GetPose = Reply pose_str"
    and "CHR ''('' \<notin> set pose_str \<or> (\<exists>c \<in> set (coord_strings pose_str). isl (py_float c))
         \<or> length (coord_strings pose_str) < 4"
  shows "\<exists>detail.
     serve str_of hs rb \<lparr>meth = ''GET'', path = ''/api/robot/position'', get_json = body\<rparr> lg =
       Some (Response 500
               (JObj [(''status'', JStr ''error''),
                      (''message'', JStr (''Failed to parse position: '' @ detail))]),
             lg @ [(GetPose, Reply pose_str)])
     \<and> (detail = ''list index out of range'' \<or>
        (\<exists>c \<in> set (coord_strings pose_str).
           detail = ''could not convert string to float: '' @ py_repr c))"
proof -
  have run: "serve str_of hs rb \<lparr>meth = ''GET'', path = ''/api/robot/position'', get_json = body\<rparr> lg =
     Some (case position_body pose_str of
             Inr b \<Rightarrow> Response 200 b
           | Inl e \<Rightarrow> Response 500 (error_json (''Failed to parse position: '' @ str_perr e)),
           lg @ [(GetPose, Reply pose_str)])"
    using assms(2) check_present[OF assms(1)]
    by (simp add: serve_def route_simps get_position_def invoke_def split: sum.splits)
  from position_body_fails[OF assms(3)] show ?thesis
  proof
    assume "position_body pose_str = Inl IndexError"
    then show ?thesis
      unfolding run by (simp add: error_json_def)
  next
    assume "\<exists>c \<in> set (coord_strings pose_str).
              position_body pose_str =
                Inl (ValueError (''could not convert string to float: '' @ py_repr c))"
    then obtain c where "c \<in> set (coord_strings pose_str)"
      "position_body pose_str = Inl (ValueError (''could not convert string to float: '' @ py_repr c))"
      by blast
    then show ?thesis
      unfolding run by (auto simp: error_json_def)
  qed
qed

theorem position_parse_failure_gives_500_witness:
  "\<exists>detail.
     serve (\<lambda>v. ''?'') (startup (\<lambda>host port. True)) (\<lambda>lg c. Reply ''0,{},GetPose(1.0,abc,3.0,4.0)'')
       \<lparr>meth = ''GET'', path = ''/api/robot/position'', get_json = JNull\<rparr> [] =
       Some (Response 500
               (JObj [(''status'', JStr ''error''),
                      (''message'', JStr (''Failed to parse position: '' @ detail))]),
             [(GetPose, Reply ''0,{},GetPose(1.0,abc,3.0,4.0)'')])
     \<and> (detail = ''list index out of range'' \<or>
         detail = ''could not convert string to float: '' @ [CHR 0x27, CHR ''1'', CHR ''.'', CHR ''0'', CHR 0x27] \<or>
         detail = ''could not convert string to float: '' @ [CHR 0x27, CHR ''a'', CHR ''b'', CHR ''c'', CHR 0x27] \<or>
         detail = ''could not convert string to float: '' @ [CHR 0x27, CHR ''3'', CHR ''.'', CHR ''0'', CHR 0x27] \<or>
         detail = ''could not convert string to float: '' @ [CHR 0x27, CHR ''4'', CHR ''.'', CHR ''0'', CHR 0x27])"
  using position_parse_failure_gives_500[of "startup (\<lambda>host port. True)"
      "\<lambda>lg c. Reply ''0,{},GetPose(1.0,abc,3.0,4.0)''" "[]" "''0,{},GetPose(1.0,abc,3.0,4.0)''"
      "\<lambda>v. ''?''" JNull]
  by (simp add: startup_def handles_present_def example_bad_reply py_repr_def repr_char_def
      printable_def Let_def)

subsection \<open>Validation leaves the controller untouched\<close>

lemma plain_command_no_call:
  assumes "(case check_dobot_connection hs of (is_connected, error_response, status_code) \<Rightarrow>
        if \<not> is_connected then (with_status error_response status_code, lg)
        else (case invoke rb c0 lg of
                (Reply r, lg1) \<Rightarrow> (Response 200 (success_json okmsg r), lg1)
              | (Fault e, lg1) \<Rightarrow> (Response 500 (error_json e), lg1))) = (Response st body, lg')"
      and "st = 503 \<or> st = 400"
  shows "lg' = lg"
  using assms
  by (auto simp: invoke_def split: prod.splits if_splits outcome.splits)

lemma call_view_no_call:
  assumes "call_view str_of hs rb v req lg = (Response st body, lg')"
    and "st = 503 \<or> st = 400"
  shows "lg' = lg"
proof (cases v)
  case V_connection_check
  with assms show ?thesis
    by (auto simp: connection_check_def split: prod.splits if_splits outcome.splits)
next
  case V_enable_robot
  with assms show ?thesis by (auto simp: enable_robot_def dest: plain_command_no_call)
next
  case V_disable_robot
  with assms show ?thesis by (auto simp: disable_robot_def dest: plain_command_no_call)
next
  case V_stop_robot
  with assms show ?thesis by (auto simp: stop_robot_def dest: plain_command_no_call)
next
  case V_get_position
  with assms show ?thesis
    by (auto simp: get_position_def invoke_def
        split: prod.splits if_splits outcome.splits sum.splits)
next
  case V_move_robot
  with assms show ?thesis
    by (auto simp: move_robot_def invoke_def Let_def
        split: prod.splits if_splits outcome.splits sum.splits)
next
  case V_set_speed
  with assms show ?thesis
    by (auto simp: set_speed_def invoke_def Let_def
        split: prod.splits if_splits outcome.splits sum.splits)
qed

text \<open>
  C9. Whenever a request is answered with the status 503 or 400 (the answers of the
  connection guard and of the payload and range checks; no other path gives these
  statuses), the history of remote calls is what it was before the request: none of
  \<^verbatim>\<open>EnableRobot\<close>, \<^verbatim>\<open>DisableRobot\<close>, \<^verbatim>\<open>ResetRobot\<close>, \<^verbatim>\<open>GetPose\<close>, \<^verbatim>\<open>MovJ\<close>, \<^verbatim>\<open>MovL\<close>,
  \<^verbatim>\<open>Sync\<close>, \<^verbatim>\<open>SpeedFactor\<close>, nor any other call, was made.
\<close>

theorem validation_error_leaves_robot_untouched:
  assumes "serve str_of hs rb req lg = Some (Response st body, lg')"
    and "st = 503 \<or> st = 400"
  shows "lg' = lg"
  using assms call_view_no_call
  by (auto simp: serve_def split: option.splits)

theorem validation_error_leaves_robot_untouched_witness:
  "serve (\<lambda>v. ''?'') (startup (\<lambda>host port. True)) (\<lambda>lg c. Reply ''0'')
      \<lparr>meth = ''POST'', path = ''/api/robot/speed'', get_json = JObj [(''ratio'', JInt 0)]\<rparr>
      [(GetErrorID, Reply ''0'')] =
     Some (Response 400 (JObj [(''status'', JStr ''error''),
                               (''message'', JStr ''Speed ratio must be between 1 and 100.'')]),
           [(GetErrorID, Reply ''0'')])"
proof -
  let ?req = "\<lparr>meth = ''POST'', path = ''/api/robot/speed'', get_json = JObj [(''ratio'', JInt 0)]\<rparr>"
  let ?body = "JObj [(''status'', JStr ''error''),
                     (''message'', JStr ''Speed ratio must be between 1 and 100.'')]"
  have "\<exists>lg'. serve (\<lambda>v. ''?'') (startup (\<lambda>host port. True)) (\<lambda>lg c. Reply ''0'') ?req
          [(GetErrorID, Reply ''0'')] = Some (Response 400 ?body, lg')"
    by (simp add: serve_def url_map_def set_speed_def check_dobot_connection_def startup_def
        between_def error_json_def Let_def)
  then obtain lg'
    where run: "serve (\<lambda>v. ''?'') (startup (\<lambda>host port. True)) (\<lambda>lg c. Reply ''0'') ?req
          [(GetErrorID, Reply ''0'')] = Some (Response 400 ?body, lg')"
    by blast
  from validation_error_leaves_robot_untouched[OF run] have "lg' = [(GetErrorID, Reply ''0'')]"
    by simp
  with run show ?thesis by simp
qed

subsection \<open>Bodies that are not objects\<close>

text \<open>
  The payload checks of \<^verbatim>\<open>move_robot\<close> use \<^verbatim>\<open>in\<close> and a subscript, which are defined for
  more than dicts. A body that is a non-zero number is not iterable, and a list that
  holds the four names passes the check but cannot be subscripted by a string: in both
  cases \<^verbatim>\<open>TypeError\<close> leaves the view before any call is made.
\<close>

lemma move_number_body_raises:
  assumes "handles_present hs"
    and "meth req = ''POST''"
    and "path req = ''/api/robot/move/j'' \<or> path req = ''/api/robot/move/l''"
    and "get_json req = JInt n" and "n \<noteq> 0"
  shows "serve str_of hs rb req lg = Some (Raised TypeError, lg)"
  using check_present[OF assms(1)] assms(4,5)
  by (simp add: serve_move[OF assms(2,3)] move_robot_def)

lemma move_list_body_raises:
  assumes "handles_present hs"
    and "meth req = ''POST''"
    and "path req = ''/api/robot/move/j'' \<or> path req = ''/api/robot/move/l''"
    and "get_json req = JArr [JStr ''x'', JStr ''y'', JStr ''z'', JStr ''r'']"
  shows "serve str_of hs rb req lg = Some (Raised TypeError, lg)"
  using check_present[OF assms(1)] assms(4)
  by (simp add: serve_move[OF assms(2,3)] move_robot_def)

end
